theory Spec2Isabelle
  imports Complex_Main
begin

section \<open>The terminal service: apps/server/src/services/terminal-service.ts\<close>

text \<open>
  The service keeps a registry of PTY sessions. Each session is a mutable object that the
  registry, the PTY handlers and the timer callbacks all reference; the object stays alive
  (and its closures stay callable) after its entry has left the registry. The model
  therefore has an explicit store of session objects, a registry from ids to object
  references, and a store of pending timers. Calls into the PTY (spawn, resize, kill) are
  external: the model takes from the caller whether the call throws.

  A JavaScript string is modelled as a list of code units (\<open>string\<close>); \<open>length\<close> and
  \<open>slice\<close> count code units, as in the source. Code units above 255 are outside the
  model.
\<close>

subsection \<open>JavaScript values\<close>

text \<open>A \<open>number\<close>: \<open>NaN\<close>, a finite value (whole or not), or one of the infinities. The
  numbers met here are session counts and limits, and only compared; the rounding of
  doubles plays no part in a comparison.\<close>

datatype jsnum = NaN | Num real | Infinity | NegInfinity

text \<open>\<open>a >= b\<close> and \<open>a <= b\<close>: every comparison with \<open>NaN\<close> is false.\<close>

fun js_ge :: "jsnum \<Rightarrow> jsnum \<Rightarrow> bool" where
  "js_ge NaN _ = False"
| "js_ge _ NaN = False"
| "js_ge (Num a) (Num b) = (a \<ge> b)"
| "js_ge Infinity _ = True"
| "js_ge _ NegInfinity = True"
| "js_ge _ _ = False"

fun js_le :: "jsnum \<Rightarrow> jsnum \<Rightarrow> bool" where
  "js_le a b = js_ge b a"

text \<open>\<open>s.slice(start)\<close> and \<open>s.slice(start, stop)\<close>: a negative index counts from the
  end, and both are clamped to the string.\<close>

definition slice_index :: "nat \<Rightarrow> int \<Rightarrow> nat" where
  "slice_index n i = (if i < 0 then nat (max (int n + i) 0) else min (nat i) n)"

definition slice_from :: "string \<Rightarrow> int \<Rightarrow> string" where
  "slice_from s start = drop (slice_index (length s) start) s"

definition slice :: "string \<Rightarrow> int \<Rightarrow> int \<Rightarrow> string" where
  "slice s start stop =
     (let from = slice_index (length s) start; to = slice_index (length s) stop
      in take (to - from) (drop from s))"

text \<open>White space as \<open>trim\<close> and \<open>parseInt\<close> see it, among the code units of the model.\<close>

definition isWhiteSpace :: "char \<Rightarrow> bool" where
  "isWhiteSpace c = (of_char c \<in> {9, 10, 11, 12, 13, 32, 160 :: nat})"

definition trim :: "string \<Rightarrow> string" where
  "trim s = rev (dropWhile isWhiteSpace (rev (dropWhile isWhiteSpace s)))"

definition startsWith :: "string \<Rightarrow> string \<Rightarrow> bool" where
  "startsWith s p = (take (length p) s = p)"

definition isDigit :: "char \<Rightarrow> bool" where
  "isDigit c = (48 \<le> (of_char c :: nat) \<and> (of_char c :: nat) \<le> 57)"

definition digitValue :: "char \<Rightarrow> int" where
  "digitValue c = int (of_char c) - 48"

text \<open>\<open>parseInt(s, 10)\<close>: leading white space, an optional sign, then the longest run of
  decimal digits; \<open>NaN\<close> when there is no digit. (Values too large for a double to hold
  exactly are rounded by JavaScript, to \<open>Infinity\<close> in the end; the model keeps them
  exact.)\<close>

definition parseInt10 :: "string \<Rightarrow> jsnum" where
  "parseInt10 s =
     (let t = dropWhile isWhiteSpace s;
          neg = (t \<noteq> [] \<and> hd t = CHR ''-'');
          u = (if t \<noteq> [] \<and> (hd t = CHR ''-'' \<or> hd t = CHR ''+'') then tl t else t);
          ds = takeWhile isDigit u;
          v = foldl (\<lambda>a c. 10 * a + digitValue c) 0 ds
      in if ds = [] then NaN else Num (real_of_int (if neg then - v else v)))"

subsection \<open>Constants\<close>

definition MAX_SCROLLBACK_SIZE :: nat where
  "MAX_SCROLLBACK_SIZE = 50000"

definition MIN_MAX_SESSIONS :: real where
  "MIN_MAX_SESSIONS = 1"

definition MAX_MAX_SESSIONS :: real where
  "MAX_MAX_SESSIONS = 500"

definition OUTPUT_BATCH_SIZE :: nat where
  "OUTPUT_BATCH_SIZE = 4096"

text \<open>The module-level \<open>maxSessions\<close> at load time:
  \<open>parseInt(process.env.TERMINAL_MAX_SESSIONS || "1000", 10)\<close>. An unset variable and
  the empty string are both falsy.\<close>

definition initialMaxSessions :: "string option \<Rightarrow> jsnum" where
  "initialMaxSessions env =
     parseInt10 (case env of None \<Rightarrow> ''1000'' | Some v \<Rightarrow> if v = [] then ''1000'' else v)"

subsection \<open>Sessions, timers and the service state\<close>

text \<open>\<open>TerminalSession\<close>. The \<open>pty\<close> field is the handle of the session's own process. A
  \<open>NodeJS.Timeout | null\<close> field is a timer handle or \<open>None\<close>; a handle stays truthy after
  its timer has fired or been cleared.\<close>

record session =
  sessionId :: string
  pty :: nat
  cwd :: string
  createdAt :: nat
  shell :: string
  scrollbackBuffer :: string
  outputBuffer :: string
  flushTimeout :: "nat option"
  resizeInProgress :: bool
  resizeDebounceTimeout :: "nat option"

text \<open>What a pending timer runs: the session's \<open>flushOutput\<close> closure, or the settle
  callback that \<open>resize\<close> installs. Both close over the session object.\<close>

datatype timer_callback = FlushOutput nat | ResizeSettle nat

text \<open>What the service sends out: a call of a data or exit subscriber, or an
  \<open>EventEmitter\<close> emission.\<close>

datatype notification =
    DataCallback nat string string
  | EmitData string string
  | ExitCallback nat string int
  | EmitExit string int

record service =
  sessions :: "(string \<times> nat) list"
  dataCallbacks :: "nat list"
  exitCallbacks :: "nat list"
  maxSessions :: jsnum
  objects :: "nat \<Rightarrow> session option"
  nextObject :: nat
  timers :: "nat \<Rightarrow> timer_callback option"
  nextTimer :: nat
  notifications :: "notification list"

text \<open>The service when the module has loaded: nothing registered, no session object, no
  timer, nothing sent.\<close>

definition newService :: "string option \<Rightarrow> service" where
  "newService env =
     \<lparr> sessions = [], dataCallbacks = [], exitCallbacks = [],
       maxSessions = initialMaxSessions env,
       objects = (\<lambda>_. None), nextObject = 0,
       timers = (\<lambda>_. None), nextTimer = 0,
       notifications = [] \<rparr>"

subsection \<open>Map and Set\<close>

text \<open>A JavaScript \<open>Map\<close> keeps its keys distinct and in insertion order; \<open>set\<close> on a
  present key replaces the value in place.\<close>

fun Map_set :: "'k \<Rightarrow> 'v \<Rightarrow> ('k \<times> 'v) list \<Rightarrow> ('k \<times> 'v) list" where
  "Map_set k v [] = [(k, v)]"
| "Map_set k v ((k', v') # m) = (if k' = k then (k, v) # m else (k', v') # Map_set k v m)"

fun Map_delete :: "'k \<Rightarrow> ('k \<times> 'v) list \<Rightarrow> ('k \<times> 'v) list" where
  "Map_delete k [] = []"
| "Map_delete k ((k', v') # m) = (if k' = k then m else (k', v') # Map_delete k m)"

fun Map_get :: "('k \<times> 'v) list \<Rightarrow> 'k \<Rightarrow> 'v option" where
  "Map_get [] k = None"
| "Map_get ((k', v') # m) k = (if k' = k then Some v' else Map_get m k)"

definition Map_size :: "('k \<times> 'v) list \<Rightarrow> nat" where
  "Map_size m = length m"

definition Set_add :: "'a \<Rightarrow> 'a list \<Rightarrow> 'a list" where
  "Set_add x xs = (if x \<in> set xs then xs else xs @ [x])"

definition Set_delete :: "'a \<Rightarrow> 'a list \<Rightarrow> 'a list" where
  "Set_delete x xs = removeAll x xs"

subsection \<open>Timers\<close>

text \<open>\<open>setTimeout\<close> returns a fresh handle and leaves the callback pending;
  \<open>clearTimeout\<close> removes a pending timer and does nothing to one that has fired.\<close>

definition setTimeout :: "timer_callback \<Rightarrow> service \<Rightarrow> nat \<times> service" where
  "setTimeout cb s =
     (nextTimer s, s\<lparr>timers := (timers s)(nextTimer s \<mapsto> cb), nextTimer := Suc (nextTimer s)\<rparr>)"

definition clearTimeout :: "nat \<Rightarrow> service \<Rightarrow> service" where
  "clearTimeout t s = s\<lparr>timers := (timers s)(t := None)\<rparr>"

definition setObject :: "nat \<Rightarrow> session \<Rightarrow> service \<Rightarrow> service" where
  "setObject r x s = s\<lparr>objects := (objects s)(r \<mapsto> x)\<rparr>"

subsection \<open>Subscribers\<close>

definition onData :: "nat \<Rightarrow> service \<Rightarrow> service" where
  "onData cb s = s\<lparr>dataCallbacks := Set_add cb (dataCallbacks s)\<rparr>"

definition onExit :: "nat \<Rightarrow> service \<Rightarrow> service" where
  "onExit cb s = s\<lparr>exitCallbacks := Set_add cb (exitCallbacks s)\<rparr>"

text \<open>\<open>this.dataCallbacks.forEach((cb) => cb(id, data)); this.emit("data", id, data)\<close>.
  Subscribers are observers: they do not call back into the service and do not throw.\<close>

definition dataDelivery :: "nat list \<Rightarrow> string \<Rightarrow> string \<Rightarrow> notification list" where
  "dataDelivery cbs i d = map (\<lambda>cb. DataCallback cb i d) cbs @ [EmitData i d]"

definition exitDelivery :: "nat list \<Rightarrow> string \<Rightarrow> int \<Rightarrow> notification list" where
  "exitDelivery cbs i c = map (\<lambda>cb. ExitCallback cb i c) cbs @ [EmitExit i c]"

definition notify :: "notification list \<Rightarrow> service \<Rightarrow> service" where
  "notify ns s = s\<lparr>notifications := notifications s @ ns\<rparr>"

subsection \<open>The closures of createSession\<close>

text \<open>\<open>flushOutput\<close>, for the session object at \<open>r\<close>. A closure always has its object;
  the model leaves the state alone at a reference that holds none.\<close>

definition flushOutput :: "nat \<Rightarrow> service \<Rightarrow> service" where
  "flushOutput r s =
     (case objects s r of
        None \<Rightarrow> s
      | Some x \<Rightarrow>
          if length (outputBuffer x) = 0 then s
          else if length (outputBuffer x) > OUTPUT_BATCH_SIZE then
            (let dataToSend = slice (outputBuffer x) 0 (int OUTPUT_BATCH_SIZE);
                 rest = slice_from (outputBuffer x) (int OUTPUT_BATCH_SIZE);
                 (t, s1) = setTimeout (FlushOutput r) s;
                 s2 = setObject r (x\<lparr>outputBuffer := rest, flushTimeout := Some t\<rparr>) s1
             in notify (dataDelivery (dataCallbacks s2) (sessionId x) dataToSend) s2)
          else
            (let dataToSend = outputBuffer x;
                 s2 = setObject r (x\<lparr>outputBuffer := [], flushTimeout := None\<rparr>) s
             in notify (dataDelivery (dataCallbacks s2) (sessionId x) dataToSend) s2))"

text \<open>The append to the scrollback buffer, trimmed to the most recent data.\<close>

definition appendScrollback :: "string \<Rightarrow> string \<Rightarrow> string" where
  "appendScrollback buf d =
     (let b = buf @ d
      in if length b > MAX_SCROLLBACK_SIZE then slice_from b (- int MAX_SCROLLBACK_SIZE) else b)"

text \<open>The \<open>ptyProcess.onData\<close> handler of the session object at \<open>r\<close>.\<close>

definition ptyOnData :: "nat \<Rightarrow> string \<Rightarrow> service \<Rightarrow> service" where
  "ptyOnData r d s =
     (case objects s r of
        None \<Rightarrow> s
      | Some x \<Rightarrow>
          if resizeInProgress x then s
          else
            (let x1 = x\<lparr>scrollbackBuffer := appendScrollback (scrollbackBuffer x) d,
                        outputBuffer := outputBuffer x @ d\<rparr>
             in case flushTimeout x1 of
                  Some _ \<Rightarrow> setObject r x1 s
                | None \<Rightarrow>
                    (let (t, s1) = setTimeout (FlushOutput r) s
                     in setObject r (x1\<lparr>flushTimeout := Some t\<rparr>) s1)))"

text \<open>The \<open>ptyProcess.onExit\<close> handler of the session object at \<open>r\<close>.\<close>

definition ptyOnExit :: "nat \<Rightarrow> int \<Rightarrow> service \<Rightarrow> service" where
  "ptyOnExit r exitCode s =
     (case objects s r of
        None \<Rightarrow> s
      | Some x \<Rightarrow>
          (let s1 = s\<lparr>sessions := Map_delete (sessionId x) (sessions s)\<rparr>
           in notify (exitDelivery (exitCallbacks s1) (sessionId x) exitCode) s1))"

text \<open>The settle callback that \<open>resize\<close> schedules.\<close>

definition resizeSettle :: "nat \<Rightarrow> service \<Rightarrow> service" where
  "resizeSettle r s =
     (case objects s r of
        None \<Rightarrow> s
      | Some x \<Rightarrow> setObject r (x\<lparr>resizeInProgress := False, resizeDebounceTimeout := None\<rparr>) s)"

text \<open>The event loop runs a pending timer: the timer stops being pending and its callback
  runs. A handle that is not pending (fired or cleared) runs nothing.\<close>

definition fireTimer :: "nat \<Rightarrow> service \<Rightarrow> service" where
  "fireTimer t s =
     (case timers s t of
        None \<Rightarrow> s
      | Some cb \<Rightarrow>
          (let s1 = clearTimeout t s
           in case cb of FlushOutput r \<Rightarrow> flushOutput r s1 | ResizeSettle r \<Rightarrow> resizeSettle r s1))"

subsection \<open>The host\<close>

text \<open>What one call of \<open>createSession\<close> takes from outside the service: the generated id,
  the clock, the result of \<open>detectShell\<close>, \<open>os.homedir()\<close>, the file system as
  \<open>fs.statSync\<close> sees it (a throw, or whether the path is a directory), and whether
  \<open>pty.spawn\<close> throws.\<close>

datatype error = StatError | SpawnError

record host =
  newId :: string
  now :: nat
  detectedShell :: string
  homedir :: string
  statSync :: "string \<Rightarrow> error + bool"
  spawnThrows :: bool

text \<open>\<open>TerminalOptions\<close>: \<open>cols\<close>, \<open>rows\<close> and \<open>env\<close> only go to \<open>pty.spawn\<close>.\<close>

record options =
  cwd_option :: "string option"
  shell_option :: "string option"

subsection \<open>The methods of TerminalService\<close>

text \<open>\<open>resolveWorkingDirectory\<close>: \<open>cleanPath\<close> is what it does to the request before it
  looks at the file system, the trimming (\<open>requestedCwd.trim()\<close>) and then
  \<open>fixLeadingSlashes\<close>, the repair of a doubled leading slash. The \<open>try\<close>/\<open>catch\<close>
  around \<open>statSync\<close> is the case on its result; \<open>Inl\<close> would be an exception leaving
  the method.\<close>

definition fixLeadingSlashes :: "string \<Rightarrow> string" where
  "fixLeadingSlashes c =
     (if startsWith c ''//'' \<and> \<not> startsWith c ''//wsl'' then slice_from c 1 else c)"

definition cleanPath :: "string \<Rightarrow> string" where
  "cleanPath requestedCwd = fixLeadingSlashes (trim requestedCwd)"

definition resolveWorkingDirectory :: "host \<Rightarrow> string option \<Rightarrow> error + string" where
  "resolveWorkingDirectory h requestedCwd =
     (let homeDir = homedir h
      in case requestedCwd of
           None \<Rightarrow> Inr homeDir
         | Some req \<Rightarrow>
             if req = [] then Inr homeDir
             else
               (let c = cleanPath req
                in case statSync h c of
                     Inr isDirectory \<Rightarrow> if isDirectory then Inr c else Inr homeDir
                   | Inl _ \<Rightarrow> Inr homeDir))"

definition getSessionCount :: "service \<Rightarrow> nat" where
  "getSessionCount s = Map_size (sessions s)"

definition getMaxSessions :: "service \<Rightarrow> jsnum" where
  "getMaxSessions s = maxSessions s"

definition setMaxSessions :: "jsnum \<Rightarrow> service \<Rightarrow> service" where
  "setMaxSessions limit s =
     (if js_ge limit (Num MIN_MAX_SESSIONS) \<and> js_le limit (Num MAX_MAX_SESSIONS)
      then s\<lparr>maxSessions := limit\<rparr> else s)"

text \<open>\<open>createSession\<close>: \<open>Inr None\<close> is the \<open>null\<close> of the session limit, \<open>Inr (Some r)\<close>
  the new session object, \<open>Inl\<close> an exception. The handlers and \<open>flushOutput\<close> that it
  registers are the closures above, at the new reference.\<close>

definition createSession :: "options \<Rightarrow> host \<Rightarrow> service \<Rightarrow> (error + nat option) \<times> service" where
  "createSession opts h s =
     (if js_ge (Num (real (Map_size (sessions s)))) (maxSessions s) then (Inr None, s)
      else
        (let sh = (case shell_option opts of
                     None \<Rightarrow> detectedShell h
                   | Some v \<Rightarrow> if v = [] then detectedShell h else v)
         in case resolveWorkingDirectory h (cwd_option opts) of
              Inl e \<Rightarrow> (Inl e, s)
            | Inr dir \<Rightarrow>
                if spawnThrows h then (Inl SpawnError, s)
                else
                  (let r = nextObject s;
                       x = \<lparr> sessionId = newId h, pty = r, cwd = dir, createdAt = now h,
                             shell = sh, scrollbackBuffer = [], outputBuffer = [],
                             flushTimeout = None, resizeInProgress = False,
                             resizeDebounceTimeout = None \<rparr>;
                       s1 = (setObject r x s)\<lparr>nextObject := Suc r\<rparr>
                   in (Inr (Some r), s1\<lparr>sessions := Map_set (newId h) r (sessions s1)\<rparr>))))"

text \<open>\<open>this.sessions.get(sessionId)\<close>: the reference and the object behind it.\<close>

definition getSession :: "service \<Rightarrow> string \<Rightarrow> (nat \<times> session) option" where
  "getSession s i =
     (case Map_get (sessions s) i of
        None \<Rightarrow> None
      | Some r \<Rightarrow> (case objects s r of None \<Rightarrow> None | Some x \<Rightarrow> Some (r, x)))"

definition clearIfSet :: "nat option \<Rightarrow> service \<Rightarrow> service" where
  "clearIfSet h s = (case h of None \<Rightarrow> s | Some t \<Rightarrow> clearTimeout t s)"

text \<open>\<open>resize\<close>; \<open>ptyThrows\<close> says whether \<open>session.pty.resize(cols, rows)\<close> throws.\<close>

definition resize :: "string \<Rightarrow> int \<Rightarrow> int \<Rightarrow> bool \<Rightarrow> bool \<Rightarrow> service \<Rightarrow> bool \<times> service" where
  "resize i cols rows suppressOutput ptyThrows s =
     (case getSession s i of
        None \<Rightarrow> (False, s)
      | Some (r, x) \<Rightarrow>
          (let x1 = (if suppressOutput then x\<lparr>resizeInProgress := True\<rparr> else x);
               s1 = (if suppressOutput then clearIfSet (resizeDebounceTimeout x) s else s)
           in if ptyThrows then (False, setObject r (x1\<lparr>resizeInProgress := False\<rparr>) s1)
              else if suppressOutput then
                (let (t, s2) = setTimeout (ResizeSettle r) s1
                 in (True, setObject r (x1\<lparr>resizeDebounceTimeout := Some t\<rparr>) s2))
              else (True, setObject r x1 s1)))"

text \<open>\<open>killSession\<close>; \<open>ptyThrows\<close> says whether \<open>session.pty.kill("SIGKILL")\<close> throws.
  Both timers are cleared before the kill, and the entry is deleted on either path.\<close>

definition killSession :: "string \<Rightarrow> bool \<Rightarrow> service \<Rightarrow> bool \<times> service" where
  "killSession i ptyThrows s =
     (case getSession s i of
        None \<Rightarrow> (False, s)
      | Some (r, x) \<Rightarrow>
          (let s1 = clearIfSet (flushTimeout x) s;
               s2 = clearIfSet (resizeDebounceTimeout x) s1;
               s3 = setObject r (x\<lparr>flushTimeout := None, resizeDebounceTimeout := None\<rparr>) s2
           in (\<not> ptyThrows, s3\<lparr>sessions := Map_delete i (sessions s3)\<rparr>)))"

text \<open>\<open>buffer || null\<close>: the empty string is falsy.\<close>

definition orNull :: "string \<Rightarrow> string option" where
  "orNull b = (if b = [] then None else Some b)"

definition getScrollback :: "string \<Rightarrow> service \<Rightarrow> string option" where
  "getScrollback i s =
     (case getSession s i of None \<Rightarrow> None | Some (r, x) \<Rightarrow> orNull (scrollbackBuffer x))"

definition getScrollbackAndClearPending :: "string \<Rightarrow> service \<Rightarrow> string option \<times> service" where
  "getScrollbackAndClearPending i s =
     (case getSession s i of
        None \<Rightarrow> (None, s)
      | Some (r, x) \<Rightarrow>
          (let s1 = clearIfSet (flushTimeout x) s;
               s2 = setObject r (x\<lparr>outputBuffer := [], flushTimeout := None\<rparr>) s1
           in (orNull (scrollbackBuffer x), s2)))"

subsection \<open>Runs\<close>

text \<open>A sequence of \<open>createSession\<close> calls, each with its own options and host.\<close>

fun createSessions :: "(options \<times> host) list \<Rightarrow> service \<Rightarrow> service" where
  "createSessions [] s = s"
| "createSessions ((opts, h) # cs) s = createSessions cs (snd (createSession opts h s))"

text \<open>A sequence of output chunks arriving from the process of the session object at \<open>r\<close>.\<close>

fun feed :: "nat \<Rightarrow> string list \<Rightarrow> service \<Rightarrow> service" where
  "feed r [] s = s"
| "feed r (d # ds) s = feed r ds (ptyOnData r d s)"

text \<open>What can happen to the session object at \<open>r\<close> between a suppressing resize and its
  settle timer, as far as output goes: a chunk arrives from the process, or a pending
  timer that runs the session's \<open>flushOutput\<close> fires.\<close>

datatype window_event = Output string | FlushFires nat

fun windowStep :: "nat \<Rightarrow> window_event \<Rightarrow> service \<Rightarrow> service" where
  "windowStep r (Output d) s = ptyOnData r d s"
| "windowStep r (FlushFires t) s = (if timers s t = Some (FlushOutput r) then fireTimer t s else s)"

fun windowRun :: "nat \<Rightarrow> window_event list \<Rightarrow> service \<Rightarrow> service" where
  "windowRun r [] s = s"
| "windowRun r (e # es) s = windowRun r es (windowStep r e s)"

text \<open>The range that \<open>setMaxSessions\<close> accepts.\<close>

definition validLimit :: "jsnum \<Rightarrow> bool" where
  "validLimit n = (js_ge n (Num MIN_MAX_SESSIONS) \<and> js_le n (Num MAX_MAX_SESSIONS))"

subsection \<open>A concrete service\<close>

text \<open>A host whose only directory is \<open>/tmp\<close>, and the service after one subscriber of each
  kind has registered and one session has been created with default options.\<close>

definition exampleHost :: host where
  "exampleHost =
     \<lparr> newId = ''term-1'', now = 0, detectedShell = ''/bin/sh'', homedir = ''/home/u'',
       statSync = (\<lambda>p. if p = ''/tmp'' then Inr True else Inl StatError),
       spawnThrows = False \<rparr>"

definition exampleOptions :: options where
  "exampleOptions = \<lparr> cwd_option = None, shell_option = None \<rparr>"

definition exampleService :: service where
  "exampleService =
     snd (createSession exampleOptions exampleHost (onExit 8 (onData 7 (newService None))))"

text \<open>The event loop left to run for the session object at \<open>r\<close>: as long as the timer
  that the session's \<open>flushTimeout\<close> names is pending, it fires. \<open>n\<close> bounds the number
  of firings looked at.\<close>

fun drain :: "nat \<Rightarrow> nat \<Rightarrow> service \<Rightarrow> service" where
  "drain 0 r s = s"
| "drain (Suc n) r s =
     (case objects s r of
        None \<Rightarrow> s
      | Some x \<Rightarrow>
          (case flushTimeout x of
             None \<Rightarrow> s
           | Some t \<Rightarrow> if timers s t = None then s else drain n r (fireTimer t s)))"

section \<open>Properties\<close>

subsection \<open>The concrete service, evaluated\<close>

lemma exampleService_eq:
  "exampleService =
     \<lparr> sessions = [(''term-1'', 0)], dataCallbacks = [7], exitCallbacks = [8],
       maxSessions = Num 1000,
       objects = (\<lambda>_. None)(0 \<mapsto>
         \<lparr> sessionId = ''term-1'', pty = 0, cwd = ''/home/u'', createdAt = 0,
           shell = ''/bin/sh'', scrollbackBuffer = [], outputBuffer = [],
           flushTimeout = None, resizeInProgress = False,
           resizeDebounceTimeout = None \<rparr>),
       nextObject = 1, timers = (\<lambda>_. None), nextTimer = 0, notifications = [] \<rparr>"
  by (simp add: exampleService_def createSession_def exampleOptions_def exampleHost_def
      onExit_def onData_def newService_def initialMaxSessions_def parseInt10_def
      isWhiteSpace_def isDigit_def digitValue_def Map_size_def resolveWorkingDirectory_def
      setObject_def Set_add_def)

lemma exampleService_object:
  "objects exampleService 0 =
     Some \<lparr> sessionId = ''term-1'', pty = 0, cwd = ''/home/u'', createdAt = 0,
            shell = ''/bin/sh'', scrollbackBuffer = [], outputBuffer = [],
            flushTimeout = None, resizeInProgress = False,
            resizeDebounceTimeout = None \<rparr>"
  by (simp add: exampleService_eq)

lemma exampleService_session:
  "getSession exampleService ''term-1'' =
     Some (0, \<lparr> sessionId = ''term-1'', pty = 0, cwd = ''/home/u'', createdAt = 0,
                shell = ''/bin/sh'', scrollbackBuffer = [], outputBuffer = [],
                flushTimeout = None, resizeInProgress = False,
                resizeDebounceTimeout = None \<rparr>)"
  by (simp add: exampleService_eq getSession_def)

lemma exampleService_full:
  "maxSessions (setMaxSessions (Num 1) exampleService) = Num 1"
  "getSessionCount (setMaxSessions (Num 1) exampleService) = 1"
  by (simp_all add: setMaxSessions_def exampleService_eq MIN_MAX_SESSIONS_def
      MAX_MAX_SESSIONS_def getSessionCount_def Map_size_def)

subsection \<open>The session limit\<close>

lemma Map_set_size: "Map_size (Map_set k v m) \<le> Suc (Map_size m)"
  by (induction m) (auto simp: Map_size_def)

lemma Map_set_keys: "set (map fst (Map_set k v m)) = insert k (set (map fst m))"
  by (induction m rule: Map_set.induct) auto

lemma Map_set_distinct: "distinct (map fst m) \<Longrightarrow> distinct (map fst (Map_set k v m))"
proof (induction m rule: Map_set.induct)
  case (1 k v)
  then show ?case by simp
next
  case (2 k v k' v' m)
  then show ?case using Map_set_keys [of k v m] by auto
qed

lemma createSession_maxSessions: "maxSessions (snd (createSession opts h s)) = maxSessions s"
  by (simp add: createSession_def setObject_def Let_def split: sum.splits)

lemma createSession_count:
  assumes "maxSessions s = Num C" and "int (getSessionCount s) \<le> \<lceil>C\<rceil>"
  shows "int (getSessionCount (snd (createSession opts h s))) \<le> \<lceil>C\<rceil>"
proof (cases "real (Map_size (sessions s)) \<ge> C")
  case True
  then show ?thesis using assms by (simp add: createSession_def getSessionCount_def)
next
  case False
  then have "real_of_int (int (Map_size (sessions s))) < C" by simp
  then have "int (Map_size (sessions s)) < \<lceil>C\<rceil>" by (simp only: less_ceiling_iff)
  then have "int (Suc (Map_size (sessions s))) \<le> \<lceil>C\<rceil>" by simp
  moreover have "Map_size (sessions (snd (createSession opts h s))) \<le> Suc (Map_size (sessions s))"
    using Map_set_size [of "newId h" "nextObject s" "sessions s"]
    by (simp add: createSession_def setObject_def Let_def split: sum.splits)
  ultimately show ?thesis by (simp add: getSessionCount_def)
qed

lemma createSessions_count:
  "maxSessions s = Num C \<Longrightarrow> int (getSessionCount s) \<le> \<lceil>C\<rceil> \<Longrightarrow>
   int (getSessionCount (createSessions cs s)) \<le> \<lceil>C\<rceil> \<and> maxSessions (createSessions cs s) = Num C"
proof (induction cs arbitrary: s)
  case Nil
  then show ?case by simp
next
  case (Cons c cs)
  obtain opts h where c: "c = (opts, h)" by (cases c)
  show ?case
    using Cons.IH [of "snd (createSession opts h s)"] Cons.prems
    by (simp add: c createSession_maxSessions createSession_count)
qed

lemma fractional_limit_service:
  "setMaxSessions (Num (3 / 2)) (newService None) =
     \<lparr> sessions = [], dataCallbacks = [], exitCallbacks = [], maxSessions = Num (3 / 2),
       objects = (\<lambda>_. None), nextObject = 0, timers = (\<lambda>_. None), nextTimer = 0,
       notifications = [] \<rparr>"
  by (simp add: setMaxSessions_def newService_def MIN_MAX_SESSIONS_def MAX_MAX_SESSIONS_def)

text \<open>
  C1, as the spec has it: on a registry whose limit is \<open>C\<close>, no sequence of
  \<open>createSession\<close> calls leaves more than \<open>C\<close> sessions registered. \<open>setMaxSessions\<close>
  accepts the limit 1.5, and the comparison \<open>this.sessions.size >= maxSessions\<close> lets a
  second session in at count 1: two calls leave two sessions under the limit 1.5.
\<close>

theorem fractional_limit_counterexample:
  "validLimit (Num (3 / 2)) \<and>
   maxSessions (setMaxSessions (Num (3 / 2)) (newService None)) = Num (3 / 2) \<and>
   getSessionCount (setMaxSessions (Num (3 / 2)) (newService None)) = 0 \<and>
   getSessionCount
     (createSessions
        [(exampleOptions, exampleHost), (exampleOptions, exampleHost\<lparr>newId := ''term-2''\<rparr>)]
        (setMaxSessions (Num (3 / 2)) (newService None))) = 2 \<and>
   \<not> (real 2 \<le> 3 / 2)"
  by (simp add: fractional_limit_service validLimit_def MIN_MAX_SESSIONS_def MAX_MAX_SESSIONS_def
      getSessionCount_def Map_size_def createSession_def exampleOptions_def exampleHost_def
      resolveWorkingDirectory_def setObject_def Let_def)

text \<open>
  C1, amended. On a registry whose limit is the number \<open>C\<close> and that holds at most
  \<open>\<lceil>C\<rceil>\<close> sessions (\<open>C\<close> rounded up), any sequence of \<open>createSession\<close> calls, whatever
  their options, hosts and outcomes, leaves at most \<open>\<lceil>C\<rceil>\<close> sessions registered: at
  most \<open>C\<close> when \<open>C\<close> is a whole number, and fewer than \<open>C + 1\<close> always. A call made
  when the count has reached \<open>C\<close> returns \<open>null\<close> (\<open>Inr None\<close>, which is no session
  reference) and returns the state as it was: registry, subscriber sets, objects, timers
  and notifications.
\<close>

theorem createSession_respects_capacity:
  assumes "maxSessions s = Num C" and "int (getSessionCount s) \<le> \<lceil>C\<rceil>"
  shows "int (getSessionCount (createSessions cs s)) \<le> \<lceil>C\<rceil> \<and>
         real (getSessionCount (createSessions cs s)) < C + 1 \<and>
         (C = real_of_int k \<longrightarrow> int (getSessionCount (createSessions cs s)) \<le> k) \<and>
         (C \<le> real (getSessionCount s) \<longrightarrow> createSession opts h s = (Inr None, s))"
proof -
  have b: "int (getSessionCount (createSessions cs s)) \<le> \<lceil>C\<rceil>"
    using createSessions_count [OF assms, of cs] by simp
  then have "real_of_int (int (getSessionCount (createSessions cs s))) \<le> real_of_int \<lceil>C\<rceil>"
    by (simp only: of_int_le_iff)
  moreover have "real_of_int \<lceil>C\<rceil> < C + 1" by (rule ceiling_correct [THEN conjunct1, THEN iffD1 [OF diff_less_eq]])
  ultimately have lt: "real (getSessionCount (createSessions cs s)) < C + 1" by simp
  have k: "C = real_of_int k \<longrightarrow> int (getSessionCount (createSessions cs s)) \<le> k"
    using b by auto
  have n: "C \<le> real (getSessionCount s) \<longrightarrow> createSession opts h s = (Inr None, s)"
    using assms(1) by (simp add: createSession_def getSessionCount_def)
  show ?thesis using b lt k n by blast
qed

theorem createSession_respects_capacity_witness:
  "maxSessions (setMaxSessions (Num 1) exampleService) = Num 1 \<and>
   int (getSessionCount (setMaxSessions (Num 1) exampleService)) \<le> \<lceil>1 :: real\<rceil> \<and>
   int (getSessionCount (createSessions [(exampleOptions, exampleHost), (exampleOptions, exampleHost)]
          (setMaxSessions (Num 1) exampleService))) \<le> 1 \<and>
   (1 :: real) \<le> real (getSessionCount (setMaxSessions (Num 1) exampleService)) \<and>
   createSession exampleOptions exampleHost (setMaxSessions (Num 1) exampleService) =
     (Inr None, setMaxSessions (Num 1) exampleService) \<and>
   maxSessions (setMaxSessions (Num (3 / 2)) (newService None)) = Num (3 / 2) \<and>
   int (getSessionCount (setMaxSessions (Num (3 / 2)) (newService None))) \<le> \<lceil>3 / 2 :: real\<rceil> \<and>
   int (getSessionCount (createSessions
          [(exampleOptions, exampleHost), (exampleOptions, exampleHost\<lparr>newId := ''term-2''\<rparr>),
           (exampleOptions, exampleHost\<lparr>newId := ''term-3''\<rparr>)]
          (setMaxSessions (Num (3 / 2)) (newService None)))) \<le> 2"
proof -
  have f: "maxSessions (setMaxSessions (Num (3 / 2)) (newService None)) = Num (3 / 2)"
    "getSessionCount (setMaxSessions (Num (3 / 2)) (newService None)) = 0"
    by (simp_all add: fractional_limit_service getSessionCount_def Map_size_def)
  have c: "\<lceil>3 / 2 :: real\<rceil> = 2" by simp
  show ?thesis
    using createSession_respects_capacity [of "setMaxSessions (Num 1) exampleService" 1
      "[(exampleOptions, exampleHost), (exampleOptions, exampleHost)]" 1 exampleOptions exampleHost]
      createSession_respects_capacity [of "setMaxSessions (Num (3 / 2)) (newService None)" "3 / 2"
        "[(exampleOptions, exampleHost), (exampleOptions, exampleHost\<lparr>newId := ''term-2''\<rparr>),
           (exampleOptions, exampleHost\<lparr>newId := ''term-3''\<rparr>)]" 2 exampleOptions exampleHost]
    by (simp add: exampleService_full f c del: createSessions.simps)
qed

text \<open>
  C7, as the spec has it: the limit always lies in the range from \<open>MIN_MAX_SESSIONS\<close> to
  \<open>MAX_MAX_SESSIONS\<close>, from startup on. With \<open>TERMINAL_MAX_SESSIONS\<close> unset the module
  starts at 1000, which is above \<open>MAX_MAX_SESSIONS\<close>.
\<close>

theorem startup_limit_counterexample:
  "getMaxSessions (newService None) = Num 1000 \<and> \<not> validLimit (getMaxSessions (newService None))"
  by (simp add: getMaxSessions_def newService_def initialMaxSessions_def parseInt10_def
      isWhiteSpace_def isDigit_def digitValue_def validLimit_def MAX_MAX_SESSIONS_def
      MIN_MAX_SESSIONS_def)

text \<open>
  C7, amended. \<open>setMaxSessions\<close> rejects a limit outside the range (\<open>NaN\<close> included) and
  leaves the whole state, so the previous limit, as it was; it installs a limit inside
  the range; hence a limit that is inside the range stays inside it. The startup value
  is not bound to the range.
\<close>

theorem setMaxSessions_range:
  "(\<not> validLimit limit \<longrightarrow> setMaxSessions limit s = s) \<and>
   (validLimit limit \<longrightarrow> getMaxSessions (setMaxSessions limit s) = limit) \<and>
   (validLimit (getMaxSessions s) \<longrightarrow> validLimit (getMaxSessions (setMaxSessions limit s)))"
  by (simp add: setMaxSessions_def validLimit_def getMaxSessions_def)

theorem setMaxSessions_range_witness:
  "\<not> validLimit (Num 0) \<and> \<not> validLimit NaN \<and> validLimit (Num 5) \<and>
   getMaxSessions (setMaxSessions (Num 5) (newService None)) = Num 5 \<and>
   setMaxSessions (Num 0) (setMaxSessions (Num 5) (newService None)) =
     setMaxSessions (Num 5) (newService None) \<and>
   setMaxSessions NaN (setMaxSessions (Num 5) (newService None)) =
     setMaxSessions (Num 5) (newService None) \<and>
   validLimit (getMaxSessions (setMaxSessions (Num 0) (setMaxSessions (Num 5) (newService None))))"
proof -
  have v: "\<not> validLimit (Num 0)" "\<not> validLimit NaN" "validLimit (Num 5)"
    by (simp_all add: validLimit_def MIN_MAX_SESSIONS_def MAX_MAX_SESSIONS_def)
  show ?thesis
    using v setMaxSessions_range [of "Num 5" "newService None"]
      setMaxSessions_range [of "Num 0" "setMaxSessions (Num 5) (newService None)"]
      setMaxSessions_range [of NaN "setMaxSessions (Num 5) (newService None)"]
    by simp
qed

subsection \<open>The working directory\<close>




subsection \<open>Reading the scrollback\<close>

text \<open>
  C10. For a registered session whose scrollback buffer is the empty string,
  \<open>getScrollback\<close> and \<open>getScrollbackAndClearPending\<close> both return \<open>null\<close>, which is
  also what they return for an id that is not registered; the second still empties the
  pending buffer, resets \<open>flushTimeout\<close> and cancels the timer it named.
\<close>

theorem empty_scrollback_is_null:
  assumes "getSession s i = Some (r, x)" and "scrollbackBuffer x = []"
  shows "getScrollback i s = None \<and>
         fst (getScrollbackAndClearPending i s) = None \<and>
         (\<exists>x'. getSession (snd (getScrollbackAndClearPending i s)) i = Some (r, x') \<and>
               outputBuffer x' = [] \<and> flushTimeout x' = None) \<and>
         (\<forall>t. flushTimeout x = Some t \<longrightarrow> timers (snd (getScrollbackAndClearPending i s)) t = None) \<and>
         (\<forall>j. getSession s j = None \<longrightarrow>
               getScrollback j s = getScrollback i s \<and>
               fst (getScrollbackAndClearPending j s) = fst (getScrollbackAndClearPending i s))"
  using assms
  by (auto simp: getScrollback_def getScrollbackAndClearPending_def orNull_def getSession_def
      setObject_def clearIfSet_def clearTimeout_def Let_def split: option.splits)

theorem empty_scrollback_is_null_witness:
  "getSession exampleService ''term-1'' \<noteq> None \<and>
   scrollbackBuffer (snd (the (getSession exampleService ''term-1''))) = [] \<and>
   getScrollback ''term-1'' exampleService = None \<and>
   fst (getScrollbackAndClearPending ''term-1'' exampleService) = None \<and>
   getSession exampleService ''nobody'' = None \<and>
   getScrollback ''nobody'' exampleService = None"
proof -
  have g: "getSession exampleService ''term-1'' = Some (0, \<lparr> sessionId = ''term-1'', pty = 0, cwd = ''/home/u'', createdAt = 0,
                             shell = ''/bin/sh'', scrollbackBuffer = [], outputBuffer = [],
                             flushTimeout = None, resizeInProgress = False,
                             resizeDebounceTimeout = None \<rparr>)"
    by (simp add: exampleService_eq getSession_def)
  have n: "getSession exampleService ''nobody'' = None"
    by (simp add: exampleService_eq getSession_def)
  show ?thesis
    using empty_scrollback_is_null [OF g] g n by simp
qed

subsection \<open>Resize\<close>

text \<open>
  C8. When \<open>resize\<close> is called with \<open>suppressOutput = true\<close> on a registered session and
  the process rejects the new geometry (\<open>pty.resize\<close> throws), \<open>resize\<close> returns
  \<open>false\<close> and the session's \<open>resizeInProgress\<close> flag is false on return.
\<close>

theorem resize_failure_clears_suppression:
  assumes "getSession s i = Some (r, x)"
  shows "fst (resize i cols rows True True s) = False \<and>
         (\<exists>x'. getSession (snd (resize i cols rows True True s)) i = Some (r, x') \<and>
               \<not> resizeInProgress x')"
  using assms
  by (auto simp: resize_def getSession_def setObject_def clearIfSet_def clearTimeout_def Let_def
        split: option.splits)

theorem resize_failure_clears_suppression_witness:
  "getSession exampleService ''term-1'' \<noteq> None \<and>
   fst (resize ''term-1'' 80 24 True True exampleService) = False \<and>
   (\<exists>x'. getSession (snd (resize ''term-1'' 80 24 True True exampleService)) ''term-1'' = Some (0, x') \<and>
         \<not> resizeInProgress x')"
  using resize_failure_clears_suppression [OF exampleService_session, of 80 24]
  by (simp add: exampleService_session)

subsection \<open>The scrollback buffer\<close>

lemma slice_from_negative:
  "0 < n \<Longrightarrow> slice_from s (- int n) = drop (length s - n) s"
proof -
  assume "0 < n"
  then have "slice_index (length s) (- int n) = length s - n"
    unfolding slice_index_def by (simp add: max_def) linarith
  then show ?thesis by (simp add: slice_from_def)
qed

lemma appendScrollback_drop:
  "appendScrollback b d = drop (length (b @ d) - MAX_SCROLLBACK_SIZE) (b @ d)"
proof -
  have "0 < MAX_SCROLLBACK_SIZE" by (simp add: MAX_SCROLLBACK_SIZE_def)
  then show ?thesis
    unfolding appendScrollback_def Let_def by (simp only: slice_from_negative) simp
qed

lemma drop_tail_append:
  "drop (length (drop (length b - n) b @ d) - n) (drop (length b - n) b @ d) =
   drop (length (b @ d) - n) (b @ d)"
  by (cases "length b \<le> n") (auto simp: add.commute)

lemma ptyOnData_normal:
  assumes "objects s r = Some x" and "\<not> resizeInProgress x"
  shows "\<exists>x'. objects (ptyOnData r d s) r = Some x' \<and> \<not> resizeInProgress x' \<and>
              scrollbackBuffer x' = appendScrollback (scrollbackBuffer x) d \<and>
              outputBuffer x' = outputBuffer x @ d"
  using assms
  by (auto simp: ptyOnData_def setObject_def setTimeout_def Let_def split: option.splits)

lemma feed_scrollback:
  "objects s r = Some x \<Longrightarrow> \<not> resizeInProgress x \<Longrightarrow>
   length (scrollbackBuffer x) \<le> MAX_SCROLLBACK_SIZE \<Longrightarrow>
   \<exists>x'. objects (feed r ds s) r = Some x' \<and> \<not> resizeInProgress x' \<and>
        scrollbackBuffer x' =
          drop (length (scrollbackBuffer x @ concat ds) - MAX_SCROLLBACK_SIZE)
            (scrollbackBuffer x @ concat ds)"
proof (induction ds arbitrary: s x)
  case Nil
  then show ?case by simp
next
  case (Cons d ds)
  from ptyOnData_normal [OF Cons.prems(1) Cons.prems(2), of d] obtain x1 where
    x1: "objects (ptyOnData r d s) r = Some x1" "\<not> resizeInProgress x1"
      "scrollbackBuffer x1 = appendScrollback (scrollbackBuffer x) d"
    by blast
  have len: "length (scrollbackBuffer x1) \<le> MAX_SCROLLBACK_SIZE"
    by (simp add: x1(3) appendScrollback_drop)
  from Cons.IH [OF x1(1) x1(2) len] obtain x' where
    x': "objects (feed r ds (ptyOnData r d s)) r = Some x'" "\<not> resizeInProgress x'"
      "scrollbackBuffer x' =
          drop (length (scrollbackBuffer x1 @ concat ds) - MAX_SCROLLBACK_SIZE)
            (scrollbackBuffer x1 @ concat ds)"
    by blast
  have "scrollbackBuffer x' =
      drop (length (scrollbackBuffer x @ concat (d # ds)) - MAX_SCROLLBACK_SIZE)
            (scrollbackBuffer x @ concat (d # ds))"
    using drop_tail_append [of "scrollbackBuffer x @ d" MAX_SCROLLBACK_SIZE "concat ds"]
    by (simp add: x'(3) x1(3) appendScrollback_drop)
  then show ?case using x' by simp
qed

text \<open>
  C5. For a session that is not suppressed and starts with an empty scrollback buffer,
  after any sequence of output chunks the scrollback buffer is at most
  \<open>MAX_SCROLLBACK_SIZE\<close> long and holds exactly the last
  \<open>min (total length) MAX_SCROLLBACK_SIZE\<close> code units of the concatenation of the chunks.
\<close>

theorem scrollback_keeps_most_recent:
  assumes "objects s r = Some x" and "\<not> resizeInProgress x" and "scrollbackBuffer x = []"
  shows "\<exists>x'. objects (feed r ds s) r = Some x' \<and>
              length (scrollbackBuffer x') \<le> MAX_SCROLLBACK_SIZE \<and>
              length (scrollbackBuffer x') = min (length (concat ds)) MAX_SCROLLBACK_SIZE \<and>
              scrollbackBuffer x' =
                drop (length (concat ds) - min (length (concat ds)) MAX_SCROLLBACK_SIZE) (concat ds)"
proof -
  have "length (scrollbackBuffer x) \<le> MAX_SCROLLBACK_SIZE" by (simp add: assms(3))
  from feed_scrollback [OF assms(1) assms(2) this, of ds] obtain x' where
    x': "objects (feed r ds s) r = Some x'"
      "scrollbackBuffer x' = drop (length (concat ds) - MAX_SCROLLBACK_SIZE) (concat ds)"
    by (auto simp: assms(3))
  have "length (concat ds) - min (length (concat ds)) MAX_SCROLLBACK_SIZE =
        length (concat ds) - MAX_SCROLLBACK_SIZE"
    by simp
  then show ?thesis using x' by auto
qed

theorem scrollback_keeps_most_recent_witness:
  "objects exampleService 0 \<noteq> None \<and>
   \<not> resizeInProgress (the (objects exampleService 0)) \<and>
   scrollbackBuffer (the (objects exampleService 0)) = [] \<and>
   (\<exists>x'. objects (feed 0 [replicate 50000 (CHR ''a''), ''bc''] exampleService) 0 = Some x' \<and>
         length (scrollbackBuffer x') = 50000 \<and>
         scrollbackBuffer x' = replicate 49998 (CHR ''a'') @ ''bc'')"
proof -
  have "(50002::nat) - min 50002 MAX_SCROLLBACK_SIZE = 2" "min (50002::nat) MAX_SCROLLBACK_SIZE = 50000"
    by (simp_all add: MAX_SCROLLBACK_SIZE_def)
  then show ?thesis
    using scrollback_keeps_most_recent [OF exampleService_object, of "[replicate 50000 (CHR ''a''), ''bc'']"]
    by (simp add: exampleService_object) blast
qed

subsection \<open>Flushing\<close>

lemma slice_take: "slice b 0 (int n) = take n b"
  by (simp add: slice_def slice_index_def Let_def min_def)

lemma slice_from_drop: "slice_from b (int n) = drop n b"
  by (simp add: slice_from_def slice_index_def min_def)

lemma flushOutput_empty:
  "objects s r = Some x \<Longrightarrow> outputBuffer x = [] \<Longrightarrow> flushOutput r s = s"
  by (simp add: flushOutput_def)

lemma flushOutput_all:
  assumes "objects s r = Some x" and "outputBuffer x \<noteq> []"
    and "length (outputBuffer x) \<le> OUTPUT_BATCH_SIZE"
  shows "flushOutput r s =
           notify (dataDelivery (dataCallbacks s) (sessionId x) (outputBuffer x))
             (setObject r (x\<lparr>outputBuffer := [], flushTimeout := None\<rparr>) s)"
  using assms by (simp add: flushOutput_def Let_def setObject_def)

lemma flushOutput_batch:
  assumes "objects s r = Some x" and "length (outputBuffer x) > OUTPUT_BATCH_SIZE"
  shows "flushOutput r s =
           notify (dataDelivery (dataCallbacks s) (sessionId x) (take OUTPUT_BATCH_SIZE (outputBuffer x)))
             (setObject r
                (x\<lparr>outputBuffer := drop OUTPUT_BATCH_SIZE (outputBuffer x),
                   flushTimeout := Some (nextTimer s)\<rparr>)
                (snd (setTimeout (FlushOutput r) s)))"
proof -
  have "outputBuffer x \<noteq> []" using assms(2) by auto
  then show ?thesis
    using assms
    by (simp add: flushOutput_def Let_def setObject_def setTimeout_def slice_take slice_from_drop)
qed

lemma fireTimer_flush:
  "timers s t = Some (FlushOutput r) \<Longrightarrow> fireTimer t s = flushOutput r (clearTimeout t s)"
  by (simp add: fireTimer_def)

lemma fire_flush_batch:
  assumes "objects s r = Some x" and "timers s t = Some (FlushOutput r)"
    and "length (outputBuffer x) > OUTPUT_BATCH_SIZE"
  shows "objects (fireTimer t s) r =
           Some (x\<lparr>outputBuffer := drop OUTPUT_BATCH_SIZE (outputBuffer x),
                   flushTimeout := Some (nextTimer s)\<rparr>) \<and>
         timers (fireTimer t s) = (timers s)(t := None, nextTimer s \<mapsto> FlushOutput r) \<and>
         nextTimer (fireTimer t s) = Suc (nextTimer s) \<and>
         dataCallbacks (fireTimer t s) = dataCallbacks s \<and>
         notifications (fireTimer t s) =
           notifications s @
           dataDelivery (dataCallbacks s) (sessionId x) (take OUTPUT_BATCH_SIZE (outputBuffer x))"
proof -
  have o: "objects (clearTimeout t s) r = Some x" using assms(1) by (simp add: clearTimeout_def)
  show ?thesis
    by (simp only: fireTimer_flush [OF assms(2)] flushOutput_batch [OF o assms(3)])
      (simp add: notify_def setObject_def setTimeout_def clearTimeout_def)
qed

lemma fire_flush_all:
  assumes "objects s r = Some x" and "timers s t = Some (FlushOutput r)"
    and "outputBuffer x \<noteq> []" and "length (outputBuffer x) \<le> OUTPUT_BATCH_SIZE"
  shows "objects (fireTimer t s) r = Some (x\<lparr>outputBuffer := [], flushTimeout := None\<rparr>) \<and>
         timers (fireTimer t s) = (timers s)(t := None) \<and>
         nextTimer (fireTimer t s) = nextTimer s \<and>
         dataCallbacks (fireTimer t s) = dataCallbacks s \<and>
         notifications (fireTimer t s) =
           notifications s @ dataDelivery (dataCallbacks s) (sessionId x) (outputBuffer x)"
proof -
  have o: "objects (clearTimeout t s) r = Some x" using assms(1) by (simp add: clearTimeout_def)
  show ?thesis
    by (simp only: fireTimer_flush [OF assms(2)] flushOutput_all [OF o assms(3) assms(4)])
      (simp add: notify_def setObject_def clearTimeout_def)
qed

lemma ptyOnData_schedules:
  assumes "objects s r = Some x" and "\<not> resizeInProgress x" and "flushTimeout x = None"
  shows "objects (ptyOnData r d s) r =
           Some (x\<lparr>scrollbackBuffer := appendScrollback (scrollbackBuffer x) d,
                   outputBuffer := outputBuffer x @ d,
                   flushTimeout := Some (nextTimer s)\<rparr>) \<and>
         timers (ptyOnData r d s) = (timers s)(nextTimer s \<mapsto> FlushOutput r) \<and>
         nextTimer (ptyOnData r d s) = Suc (nextTimer s) \<and>
         dataCallbacks (ptyOnData r d s) = dataCallbacks s \<and>
         notifications (ptyOnData r d s) = notifications s"
  using assms by (simp add: ptyOnData_def setTimeout_def setObject_def Let_def)

lemma drain_fires:
  "objects s r = Some x \<Longrightarrow> flushTimeout x = Some t \<Longrightarrow> timers s t = Some cb \<Longrightarrow>
   drain (Suc n) r s = drain n r (fireTimer t s)"
  by simp

lemma drain_idle:
  "objects s r = Some x \<Longrightarrow> flushTimeout x = None \<Longrightarrow> drain n r s = s"
  by (cases n) simp_all

lemma example_burst_object:
  "objects (ptyOnData 0 ''abc'' exampleService) 0 =
     Some \<lparr> sessionId = ''term-1'', pty = 0, cwd = ''/home/u'', createdAt = 0,
            shell = ''/bin/sh'', scrollbackBuffer = ''abc'', outputBuffer = ''abc'',
            flushTimeout = Some 0, resizeInProgress = False,
            resizeDebounceTimeout = None \<rparr>"
  by (simp add: ptyOnData_def exampleService_eq setTimeout_def setObject_def appendScrollback_def
      MAX_SCROLLBACK_SIZE_def Let_def)

lemma example_large_object:
  "objects (ptyOnData 0 (replicate 10000 (CHR ''x'')) exampleService) 0 =
     Some \<lparr> sessionId = ''term-1'', pty = 0, cwd = ''/home/u'', createdAt = 0,
            shell = ''/bin/sh'', scrollbackBuffer = replicate 10000 (CHR ''x''),
            outputBuffer = replicate 10000 (CHR ''x''),
            flushTimeout = Some 0, resizeInProgress = False,
            resizeDebounceTimeout = None \<rparr>"
  by (simp add: ptyOnData_def exampleService_eq setTimeout_def setObject_def appendScrollback_def
      MAX_SCROLLBACK_SIZE_def Let_def)

text \<open>
  C6, as the spec has it: after any single flush the pending buffer is no longer than the
  batch size. A burst of 10000 code units leaves 5904 pending after its first flush, more
  than \<open>OUTPUT_BATCH_SIZE\<close>.
\<close>

theorem flush_remainder_counterexample:
  "objects (fireTimer 0 (ptyOnData 0 (replicate 10000 (CHR ''x'')) exampleService)) 0 \<noteq> None \<and>
   length (outputBuffer (the (objects (fireTimer 0
      (ptyOnData 0 (replicate 10000 (CHR ''x'')) exampleService)) 0))) = 5904 \<and>
   \<not> (5904 \<le> OUTPUT_BATCH_SIZE)"
proof -
  define d where "d = replicate 10000 (CHR ''x'')"
  have p: "\<not> resizeInProgress (the (objects exampleService 0))"
    "flushTimeout (the (objects exampleService 0)) = None"
    "outputBuffer (the (objects exampleService 0)) = []"
    by (simp_all add: exampleService_object)
  have o: "objects exampleService 0 = Some (the (objects exampleService 0))"
    by (simp add: exampleService_object)
  note s1 = ptyOnData_schedules [OF o p(1) p(2), of d]
  have n0: "nextTimer exampleService = 0" by (simp add: exampleService_eq)
  have t1: "timers (ptyOnData 0 d exampleService) 0 = Some (FlushOutput 0)"
    using s1 by (simp add: n0)
  have big: "OUTPUT_BATCH_SIZE < length (outputBuffer
       ((the (objects exampleService 0))\<lparr>scrollbackBuffer := appendScrollback (scrollbackBuffer (the (objects exampleService 0))) d,
           outputBuffer := outputBuffer (the (objects exampleService 0)) @ d,
           flushTimeout := Some (nextTimer exampleService)\<rparr>))"
    by (simp add: p d_def OUTPUT_BATCH_SIZE_def)
  from fire_flush_batch [OF conjunct1 [OF s1] t1 big]
  show ?thesis
    by (simp add: d_def [symmetric] p) (simp add: d_def OUTPUT_BATCH_SIZE_def)
qed

text \<open>
  C6, amended. A flush of an empty pending buffer does nothing. A flush of a non-empty
  one delivers one chunk of at most \<open>OUTPUT_BATCH_SIZE\<close> code units, and the chunk
  followed by what stays pending is what was pending. If the pending buffer was within
  the batch size, it is drained and no flush is scheduled; if it was longer, exactly its
  first \<open>OUTPUT_BATCH_SIZE\<close> code units are delivered, the rest (shorter by
  \<open>OUTPUT_BATCH_SIZE\<close>, possibly still longer than the batch size) stays pending and a
  new flush timer is pending for it.
\<close>

theorem flush_drains_or_continues:
  assumes "objects s r = Some x"
  shows "(outputBuffer x = [] \<longrightarrow> flushOutput r s = s) \<and>
         (outputBuffer x \<noteq> [] \<longrightarrow>
           (\<exists>x' sent.
              objects (flushOutput r s) r = Some x' \<and>
              notifications (flushOutput r s) =
                notifications s @ dataDelivery (dataCallbacks s) (sessionId x) sent \<and>
              length sent \<le> OUTPUT_BATCH_SIZE \<and>
              sent @ outputBuffer x' = outputBuffer x \<and>
              (length (outputBuffer x) \<le> OUTPUT_BATCH_SIZE \<longrightarrow>
                 outputBuffer x' = [] \<and> flushTimeout x' = None \<and>
                 timers (flushOutput r s) = timers s) \<and>
              (length (outputBuffer x) > OUTPUT_BATCH_SIZE \<longrightarrow>
                 sent = take OUTPUT_BATCH_SIZE (outputBuffer x) \<and>
                 outputBuffer x' = drop OUTPUT_BATCH_SIZE (outputBuffer x) \<and>
                 length (outputBuffer x') = length (outputBuffer x) - OUTPUT_BATCH_SIZE \<and>
                 flushTimeout x' = Some (nextTimer s) \<and>
                 timers (flushOutput r s) (nextTimer s) = Some (FlushOutput r))))"
proof (intro conjI impI)
  assume "outputBuffer x = []"
  then show "flushOutput r s = s" by (rule flushOutput_empty [OF assms])
next
  assume ne: "outputBuffer x \<noteq> []"
  show "\<exists>x' sent.
              objects (flushOutput r s) r = Some x' \<and>
              notifications (flushOutput r s) =
                notifications s @ dataDelivery (dataCallbacks s) (sessionId x) sent \<and>
              length sent \<le> OUTPUT_BATCH_SIZE \<and>
              sent @ outputBuffer x' = outputBuffer x \<and>
              (length (outputBuffer x) \<le> OUTPUT_BATCH_SIZE \<longrightarrow>
                 outputBuffer x' = [] \<and> flushTimeout x' = None \<and>
                 timers (flushOutput r s) = timers s) \<and>
              (length (outputBuffer x) > OUTPUT_BATCH_SIZE \<longrightarrow>
                 sent = take OUTPUT_BATCH_SIZE (outputBuffer x) \<and>
                 outputBuffer x' = drop OUTPUT_BATCH_SIZE (outputBuffer x) \<and>
                 length (outputBuffer x') = length (outputBuffer x) - OUTPUT_BATCH_SIZE \<and>
                 flushTimeout x' = Some (nextTimer s) \<and>
                 timers (flushOutput r s) (nextTimer s) = Some (FlushOutput r))"
  proof (cases "length (outputBuffer x) > OUTPUT_BATCH_SIZE")
    case True
    show ?thesis
      using True
      by (simp add: flushOutput_batch [OF assms True] notify_def setObject_def setTimeout_def)
  next
    case False
    then have le: "length (outputBuffer x) \<le> OUTPUT_BATCH_SIZE" by simp
    show ?thesis
      using le
      by (simp add: flushOutput_all [OF assms ne le] notify_def setObject_def)
  qed
qed

theorem flush_drains_or_continues_witness:
  "objects (ptyOnData 0 ''abc'' exampleService) 0 \<noteq> None \<and>
   outputBuffer (the (objects (ptyOnData 0 ''abc'' exampleService) 0)) \<noteq> [] \<and>
   length (outputBuffer (the (objects (ptyOnData 0 ''abc'' exampleService) 0))) \<le> OUTPUT_BATCH_SIZE \<and>
   (\<exists>x'. objects (flushOutput 0 (ptyOnData 0 ''abc'' exampleService)) 0 = Some x' \<and>
         outputBuffer x' = [] \<and> flushTimeout x' = None) \<and>
   length (outputBuffer (the (objects (ptyOnData 0 (replicate 10000 (CHR ''x'')) exampleService) 0)))
     > OUTPUT_BATCH_SIZE \<and>
   (\<exists>x'. objects (flushOutput 0 (ptyOnData 0 (replicate 10000 (CHR ''x'')) exampleService)) 0 = Some x' \<and>
         outputBuffer x' = replicate 5904 (CHR ''x'') \<and> flushTimeout x' = Some 1)"
proof -
  have n: "nextTimer (ptyOnData 0 (replicate 10000 (CHR ''x'')) exampleService) = 1"
    by (simp add: ptyOnData_def exampleService_eq setTimeout_def setObject_def Let_def)
  show ?thesis
    using flush_drains_or_continues [OF example_burst_object]
      flush_drains_or_continues [OF example_large_object]
    by (auto simp: example_burst_object example_large_object OUTPUT_BATCH_SIZE_def n)
qed

text \<open>
  C4. A session in the normal state, with nothing pending and no flush scheduled,
  receives one chunk of 10000 code units; the batch size is 4096. However long the event
  loop then runs (three firings or more), the subscribers receive exactly three
  deliveries, of 4096, 4096 and 1808 code units in this order, whose concatenation is
  the chunk; afterwards nothing is pending and none of the timers of the burst is left.
\<close>

theorem burst_is_delivered_in_three_batches:
  assumes "objects s r = Some x" and "\<not> resizeInProgress x"
    and "outputBuffer x = []" and "flushTimeout x = None"
    and "length d = 10000" and "3 \<le> n"
  shows "OUTPUT_BATCH_SIZE = 4096 \<and>
         notifications (drain n r (ptyOnData r d s)) =
           notifications s @
           dataDelivery (dataCallbacks s) (sessionId x) (take 4096 d) @
           dataDelivery (dataCallbacks s) (sessionId x) (take 4096 (drop 4096 d)) @
           dataDelivery (dataCallbacks s) (sessionId x) (drop 8192 d) \<and>
         length (take 4096 d) = 4096 \<and>
         length (take 4096 (drop 4096 d)) = 4096 \<and>
         length (drop 8192 d) = 1808 \<and>
         take 4096 d @ take 4096 (drop 4096 d) @ drop 8192 d = d \<and>
         (\<exists>x'. objects (drain n r (ptyOnData r d s)) r = Some x' \<and>
               outputBuffer x' = [] \<and> flushTimeout x' = None) \<and>
         timers (drain n r (ptyOnData r d s)) =
           (timers s)(nextTimer s := None, Suc (nextTimer s) := None, Suc (Suc (nextTimer s)) := None)"
proof -
  define D where "D = dataDelivery (dataCallbacks s) (sessionId x)"
  define t where "t = nextTimer s"
  obtain m where n: "n = Suc (Suc (Suc m))"
    using assms(6) by (metis Suc_le_D numeral_3_eq_3 Suc_le_mono)
  have B: "OUTPUT_BATCH_SIZE = 4096" by (simp add: OUTPUT_BATCH_SIZE_def)
  define s1 where "s1 = ptyOnData r d s"
  define x1 where "x1 = x\<lparr>scrollbackBuffer := appendScrollback (scrollbackBuffer x) d,
                   outputBuffer := d, flushTimeout := Some t\<rparr>"
  have s1: "objects s1 r = Some x1" "timers s1 = (timers s)(t \<mapsto> FlushOutput r)"
    "nextTimer s1 = Suc t" "dataCallbacks s1 = dataCallbacks s" "notifications s1 = notifications s"
    using ptyOnData_schedules [OF assms(1) assms(2) assms(4), of d]
    by (simp_all add: s1_def x1_def t_def assms(3))
  have x1: "outputBuffer x1 = d" "flushTimeout x1 = Some t" "sessionId x1 = sessionId x"
    by (simp_all add: x1_def)
  have t1: "timers s1 t = Some (FlushOutput r)" by (simp add: s1(2))
  define s2 where "s2 = fireTimer t s1"
  define x2 where "x2 = x1\<lparr>outputBuffer := drop 4096 d, flushTimeout := Some (Suc t)\<rparr>"
  have big1: "length (outputBuffer x1) > OUTPUT_BATCH_SIZE" by (simp add: x1 B assms(5))
  have s2: "objects s2 r = Some x2" "timers s2 = (timers s)(t := None, Suc t \<mapsto> FlushOutput r)"
    "nextTimer s2 = Suc (Suc t)" "dataCallbacks s2 = dataCallbacks s"
    "notifications s2 = notifications s @ D (take 4096 d)"
    using fire_flush_batch [OF s1(1) t1 big1]
    by (simp_all add: s2_def x2_def s1 x1 B D_def)
  have x2: "outputBuffer x2 = drop 4096 d" "flushTimeout x2 = Some (Suc t)" "sessionId x2 = sessionId x"
    by (simp_all add: x2_def x1)
  have t2: "timers s2 (Suc t) = Some (FlushOutput r)" by (simp add: s2(2))
  define s3 where "s3 = fireTimer (Suc t) s2"
  define x3 where "x3 = x2\<lparr>outputBuffer := drop 8192 d, flushTimeout := Some (Suc (Suc t))\<rparr>"
  have big2: "length (outputBuffer x2) > OUTPUT_BATCH_SIZE" by (simp add: x2 B assms(5))
  have s3: "objects s3 r = Some x3"
    "timers s3 = (timers s)(t := None, Suc t := None, Suc (Suc t) \<mapsto> FlushOutput r)"
    "nextTimer s3 = Suc (Suc (Suc t))" "dataCallbacks s3 = dataCallbacks s"
    "notifications s3 = notifications s @ D (take 4096 d) @ D (take 4096 (drop 4096 d))"
    using fire_flush_batch [OF s2(1) t2 big2]
    by (simp_all add: s3_def x3_def s2 x2 B D_def)
  have x3: "outputBuffer x3 = drop 8192 d" "flushTimeout x3 = Some (Suc (Suc t))"
    "sessionId x3 = sessionId x"
    by (simp_all add: x3_def x2)
  have t3: "timers s3 (Suc (Suc t)) = Some (FlushOutput r)" by (simp add: s3(2))
  define s4 where "s4 = fireTimer (Suc (Suc t)) s3"
  define x4 where "x4 = x3\<lparr>outputBuffer := [], flushTimeout := None\<rparr>"
  have ne3: "outputBuffer x3 \<noteq> []" using assms(5) by (auto simp: x3)
  have small3: "length (outputBuffer x3) \<le> OUTPUT_BATCH_SIZE" by (simp add: x3 B assms(5))
  have s4: "objects s4 r = Some x4"
    "timers s4 = (timers s)(t := None, Suc t := None, Suc (Suc t) := None)"
    "notifications s4 =
       notifications s @ D (take 4096 d) @ D (take 4096 (drop 4096 d)) @ D (drop 8192 d)"
    using fire_flush_all [OF s3(1) t3 ne3 small3]
    by (simp_all add: s4_def x4_def s3 x3 D_def)
  have x4: "outputBuffer x4 = []" "flushTimeout x4 = None" by (simp_all add: x4_def)
  have "drain n r s1 = drain (Suc (Suc m)) r s2"
    unfolding n s2_def by (rule drain_fires [OF s1(1) x1(2) t1])
  also have "\<dots> = drain (Suc m) r s3"
    unfolding s3_def by (rule drain_fires [OF s2(1) x2(2) t2])
  also have "\<dots> = drain m r s4"
    unfolding s4_def by (rule drain_fires [OF s3(1) x3(2) t3])
  also have "\<dots> = s4" by (rule drain_idle [OF s4(1) x4(2)])
  finally have fin: "drain n r (ptyOnData r d s) = s4" by (simp add: s1_def)
  have cat: "take 4096 d @ take 4096 (drop 4096 d) @ drop 8192 d = d"
  proof -
    have "take 4096 (drop 4096 d) @ drop 8192 d = drop 4096 d"
      using append_take_drop_id [of 4096 "drop 4096 d"] by simp
    then show ?thesis by simp
  qed
  show ?thesis
    using cat by (simp add: fin s4 x4 B D_def t_def assms(5))
qed

theorem burst_is_delivered_in_three_batches_witness:
  "objects exampleService 0 \<noteq> None \<and>
   \<not> resizeInProgress (the (objects exampleService 0)) \<and>
   outputBuffer (the (objects exampleService 0)) = [] \<and>
   flushTimeout (the (objects exampleService 0)) = None \<and>
   length (replicate 10000 (CHR ''x'')) = 10000 \<and>
   notifications (drain 5 0 (ptyOnData 0 (replicate 10000 (CHR ''x'')) exampleService)) =
     [DataCallback 7 ''term-1'' (replicate 4096 (CHR ''x'')), EmitData ''term-1'' (replicate 4096 (CHR ''x'')),
      DataCallback 7 ''term-1'' (replicate 4096 (CHR ''x'')), EmitData ''term-1'' (replicate 4096 (CHR ''x'')),
      DataCallback 7 ''term-1'' (replicate 1808 (CHR ''x'')), EmitData ''term-1'' (replicate 1808 (CHR ''x''))]"
proof -
  have c: "dataCallbacks exampleService = [7]" "notifications exampleService = []"
    by (simp_all add: exampleService_eq)
  show ?thesis
    using burst_is_delivered_in_three_batches [OF exampleService_object, of "replicate 10000 (CHR ''x'')" 5]
    by (simp add: exampleService_object c dataDelivery_def)
qed

subsection \<open>Removal of a session\<close>

lemma killSession_cancels_timers:
  assumes "getSession s i = Some (r, x)"
  shows "sessions (snd (killSession i ptyThrows s)) = Map_delete i (sessions s) \<and>
         (\<forall>t. flushTimeout x = Some t \<or> resizeDebounceTimeout x = Some t \<longrightarrow>
              timers (snd (killSession i ptyThrows s)) t = None)"
  using assms
  by (auto simp: killSession_def clearIfSet_def clearTimeout_def setObject_def Let_def
      split: option.splits)

text \<open>
  C3 says that both timers of a session are cancelled whenever the session leaves the
  registry, by \<open>killSession\<close> or by the exit of its process, and that no timer callback
  of the session fires afterwards. \<open>killSession\<close> does cancel both (lemma above). The
  exit handler removes the entry before it notifies the exit subscribers, but cancels
  nothing: after output \<open>abc\<close> and the exit of the process, the registry is empty and
  the flush timer is still pending; when it fires, \<open>abc\<close> is delivered after the exit
  notification. A settle timer survives the exit in the same way.
\<close>

theorem exit_leaves_timers_pending:
  "sessions (ptyOnExit 0 0 (ptyOnData 0 ''abc'' exampleService)) = [] \<and>
   timers (ptyOnExit 0 0 (ptyOnData 0 ''abc'' exampleService)) 0 = Some (FlushOutput 0) \<and>
   notifications (ptyOnExit 0 0 (ptyOnData 0 ''abc'' exampleService)) =
     [ExitCallback 8 ''term-1'' 0, EmitExit ''term-1'' 0] \<and>
   notifications (fireTimer 0 (ptyOnExit 0 0 (ptyOnData 0 ''abc'' exampleService))) =
     [ExitCallback 8 ''term-1'' 0, EmitExit ''term-1'' 0,
      DataCallback 7 ''term-1'' ''abc'', EmitData ''term-1'' ''abc''] \<and>
   timers (ptyOnExit 0 0 (snd (resize ''term-1'' 80 24 True False exampleService))) 0 =
     Some (ResizeSettle 0)"
  by (simp add: ptyOnExit_def ptyOnData_def exampleService_eq setTimeout_def setObject_def
      appendScrollback_def MAX_SCROLLBACK_SIZE_def Let_def notify_def exitDelivery_def
      fireTimer_def clearTimeout_def flushOutput_def OUTPUT_BATCH_SIZE_def dataDelivery_def
      resize_def getSession_def clearIfSet_def)

subsection \<open>The suppression window\<close>

lemma example_suppressed:
  "objects (snd (resize ''term-1'' 80 24 True False (ptyOnData 0 ''abc'' exampleService))) 0 =
     Some \<lparr> sessionId = ''term-1'', pty = 0, cwd = ''/home/u'', createdAt = 0,
            shell = ''/bin/sh'', scrollbackBuffer = ''abc'', outputBuffer = ''abc'',
            flushTimeout = Some 0, resizeInProgress = True,
            resizeDebounceTimeout = Some 1 \<rparr>"
  by (simp add: resize_def getSession_def clearIfSet_def ptyOnData_def exampleService_eq
      setTimeout_def setObject_def appendScrollback_def MAX_SCROLLBACK_SIZE_def Let_def)

lemma ptyOnData_suppressed:
  "objects s r = Some x \<Longrightarrow> resizeInProgress x \<Longrightarrow> ptyOnData r d s = s"
  by (simp add: ptyOnData_def)

lemma windowStep_keeps:
  assumes "objects s r = Some x" and "resizeInProgress x"
  shows "\<exists>x' sent.
           objects (windowStep r e s) r = Some x' \<and> resizeInProgress x' \<and>
           scrollbackBuffer x' = scrollbackBuffer x \<and> sessionId x' = sessionId x \<and>
           dataCallbacks (windowStep r e s) = dataCallbacks s \<and>
           concat sent @ outputBuffer x' = outputBuffer x \<and>
           notifications (windowStep r e s) =
             notifications s @ concat (map (dataDelivery (dataCallbacks s) (sessionId x)) sent)"
proof (cases e)
  case (Output d)
  have "windowStep r e s = s" using assms by (simp add: Output ptyOnData_suppressed)
  then show ?thesis using assms by (intro exI [of _ x] exI [of _ "[]"]) simp
next
  case (FlushFires t)
  show ?thesis
  proof (cases "timers s t = Some (FlushOutput r)")
    case False
    then have "windowStep r e s = s" by (simp add: FlushFires)
    then show ?thesis using assms by (intro exI [of _ x] exI [of _ "[]"]) simp
  next
    case True
    then have w: "windowStep r e s = fireTimer t s" by (simp add: FlushFires)
    consider (empty) "outputBuffer x = []"
      | (all) "outputBuffer x \<noteq> []" "length (outputBuffer x) \<le> OUTPUT_BATCH_SIZE"
      | (batch) "length (outputBuffer x) > OUTPUT_BATCH_SIZE"
      by fastforce
    then show ?thesis
    proof cases
      case empty
      have o: "objects (clearTimeout t s) r = Some x" using assms(1) by (simp add: clearTimeout_def)
      have "fireTimer t s = clearTimeout t s"
        by (simp only: fireTimer_flush [OF True] flushOutput_empty [OF o empty])
      then show ?thesis
        using assms empty
        by (intro exI [of _ x] exI [of _ "[]"]) (simp add: w clearTimeout_def)
    next
      case all
      show ?thesis
        using fire_flush_all [OF assms(1) True all] assms(2)
        by (intro exI [of _ "x\<lparr>outputBuffer := [], flushTimeout := None\<rparr>"]
            exI [of _ "[outputBuffer x]"]) (simp add: w)
    next
      case batch
      show ?thesis
        using fire_flush_batch [OF assms(1) True batch] assms(2)
        by (intro exI [of _ "x\<lparr>outputBuffer := drop OUTPUT_BATCH_SIZE (outputBuffer x),
                   flushTimeout := Some (nextTimer s)\<rparr>"]
            exI [of _ "[take OUTPUT_BATCH_SIZE (outputBuffer x)]"]) (simp add: w)
    qed
  qed
qed

lemma windowRun_keeps:
  "objects s r = Some x \<Longrightarrow> resizeInProgress x \<Longrightarrow>
   \<exists>x' sent.
     objects (windowRun r es s) r = Some x' \<and> resizeInProgress x' \<and>
     scrollbackBuffer x' = scrollbackBuffer x \<and> sessionId x' = sessionId x \<and>
     dataCallbacks (windowRun r es s) = dataCallbacks s \<and>
     concat sent @ outputBuffer x' = outputBuffer x \<and>
     notifications (windowRun r es s) =
       notifications s @ concat (map (dataDelivery (dataCallbacks s) (sessionId x)) sent)"
proof (induction es arbitrary: s x)
  case Nil
  then show ?case by (intro exI [of _ x] exI [of _ "[]"]) simp
next
  case (Cons e es)
  from windowStep_keeps [OF Cons.prems, of e] obtain x1 sent1 where
    1: "objects (windowStep r e s) r = Some x1" "resizeInProgress x1"
      "scrollbackBuffer x1 = scrollbackBuffer x" "sessionId x1 = sessionId x"
      "dataCallbacks (windowStep r e s) = dataCallbacks s"
      "concat sent1 @ outputBuffer x1 = outputBuffer x"
      "notifications (windowStep r e s) =
         notifications s @ concat (map (dataDelivery (dataCallbacks s) (sessionId x)) sent1)"
    by blast
  from Cons.IH [OF 1(1) 1(2)] obtain x2 sent2 where
    2: "objects (windowRun r es (windowStep r e s)) r = Some x2" "resizeInProgress x2"
      "scrollbackBuffer x2 = scrollbackBuffer x1" "sessionId x2 = sessionId x1"
      "dataCallbacks (windowRun r es (windowStep r e s)) = dataCallbacks (windowStep r e s)"
      "concat sent2 @ outputBuffer x2 = outputBuffer x1"
      "notifications (windowRun r es (windowStep r e s)) =
         notifications (windowStep r e s) @
         concat (map (dataDelivery (dataCallbacks (windowStep r e s)) (sessionId x1)) sent2)"
    by blast
  have "concat (sent1 @ sent2) @ outputBuffer x2 = outputBuffer x"
    using 1(6) 2(6) by simp
  then show ?case
    using 1 2
    by (intro exI [of _ x2] exI [of _ "sent1 @ sent2"]) simp
qed

text \<open>
  C2, as the spec has it: while \<open>resizeInProgress\<close> is set, nothing is delivered to a
  data subscriber, flushes scheduled before the suppression included. \<open>resize\<close> leaves
  a pending flush timer alone: output \<open>abc\<close> arrives, a suppressing resize follows, and
  the flush timer fires while the flag is set and the settle timer is still pending;
  \<open>abc\<close> reaches the subscriber.
\<close>

theorem suppressed_flush_counterexample:
  "resizeInProgress (the (objects
      (snd (resize ''term-1'' 80 24 True False (ptyOnData 0 ''abc'' exampleService))) 0)) \<and>
   notifications (snd (resize ''term-1'' 80 24 True False (ptyOnData 0 ''abc'' exampleService))) = [] \<and>
   resizeInProgress (the (objects (fireTimer 0
      (snd (resize ''term-1'' 80 24 True False (ptyOnData 0 ''abc'' exampleService)))) 0)) \<and>
   timers (fireTimer 0
      (snd (resize ''term-1'' 80 24 True False (ptyOnData 0 ''abc'' exampleService)))) 1 =
     Some (ResizeSettle 0) \<and>
   notifications (fireTimer 0
      (snd (resize ''term-1'' 80 24 True False (ptyOnData 0 ''abc'' exampleService)))) =
     [DataCallback 7 ''term-1'' ''abc'', EmitData ''term-1'' ''abc'']"
  by (simp add: ptyOnData_def exampleService_eq setTimeout_def setObject_def
      appendScrollback_def MAX_SCROLLBACK_SIZE_def Let_def notify_def
      fireTimer_def clearTimeout_def flushOutput_def OUTPUT_BATCH_SIZE_def dataDelivery_def
      resize_def getSession_def clearIfSet_def)

text \<open>
  C2, amended. While \<open>resizeInProgress\<close> is set, a chunk arriving from the process
  changes nothing at all: scrollback, pending buffer, timers and notifications stay as
  they are. Over every interleaving of arriving chunks and firings of the session's
  flush timers in the window, the flag stays set, the scrollback buffer stays as it was,
  and what is delivered is taken from the front of the pending buffer as it was when the
  window began: the chunks delivered, followed by what is still pending, are that buffer.
\<close>

theorem suppressed_output_is_dropped:
  assumes "objects s r = Some x" and "resizeInProgress x"
  shows "(\<forall>d. ptyOnData r d s = s) \<and>
         (\<exists>x' sent.
            objects (windowRun r es s) r = Some x' \<and> resizeInProgress x' \<and>
            scrollbackBuffer x' = scrollbackBuffer x \<and>
            concat sent @ outputBuffer x' = outputBuffer x \<and>
            notifications (windowRun r es s) =
              notifications s @ concat (map (dataDelivery (dataCallbacks s) (sessionId x)) sent))"
  using windowRun_keeps [OF assms, of es] ptyOnData_suppressed [OF assms]
  by blast

theorem suppressed_output_is_dropped_witness:
  "objects (snd (resize ''term-1'' 80 24 True False (ptyOnData 0 ''abc'' exampleService))) 0 \<noteq> None \<and>
   resizeInProgress (the (objects
     (snd (resize ''term-1'' 80 24 True False (ptyOnData 0 ''abc'' exampleService))) 0)) \<and>
   ptyOnData 0 ''zz'' (snd (resize ''term-1'' 80 24 True False (ptyOnData 0 ''abc'' exampleService))) =
     snd (resize ''term-1'' 80 24 True False (ptyOnData 0 ''abc'' exampleService)) \<and>
   (\<exists>x' sent.
      objects (windowRun 0 [Output ''zz'', FlushFires 0, Output ''y'']
        (snd (resize ''term-1'' 80 24 True False (ptyOnData 0 ''abc'' exampleService)))) 0 = Some x' \<and>
      scrollbackBuffer x' = ''abc'' \<and> concat sent @ outputBuffer x' = ''abc'')"
proof -
  have "resizeInProgress \<lparr> sessionId = ''term-1'', pty = 0, cwd = ''/home/u'', createdAt = 0,
            shell = ''/bin/sh'', scrollbackBuffer = ''abc'', outputBuffer = ''abc'',
            flushTimeout = Some 0, resizeInProgress = True,
            resizeDebounceTimeout = Some 1 \<rparr>"
    by simp
  from suppressed_output_is_dropped [OF example_suppressed this,
      of "[Output ''zz'', FlushFires 0, Output ''y'']"]
  show ?thesis
    by (simp add: example_suppressed del: windowRun.simps) blast
qed

end
